theory Spec2Isabelle
  imports Complex_Main "HOL-Library.Word" "HOL-Library.Multiset"
begin

section \<open>Data model\<close>

text \<open>
  The screening engine of the third (latest) variant of the program: the functions
  \<^verbatim>\<open>calculateTechnicalIndicators\<close>, \<^verbatim>\<open>calculateKDIndicator\<close>, \<^verbatim>\<open>ScreenStocks\<close>,
  \<^verbatim>\<open>meetsScreeningCriteria\<close>, \<^verbatim>\<open>checkStage1Fundamentals\<close>, \<^verbatim>\<open>checkStage2Quality\<close>,
  \<^verbatim>\<open>checkStage3Technical\<close> and \<^verbatim>\<open>calculateScore\<close>.

  Go's \<^verbatim>\<open>float64\<close> is modelled by \<^typ>\<open>real\<close>: rounding, infinities and NaN are
  not part of the model. Go's \<^verbatim>\<open>int\<close> field \<^verbatim>\<open>DividendYears\<close> is only compared and
  converted to \<^verbatim>\<open>float64\<close>, so it is an \<^typ>\<open>int\<close>; the \<^verbatim>\<open>int64\<close> volume fields are
  64-bit words. Console output (\<^verbatim>\<open>fmt.Printf\<close>) is not modelled.
\<close>

record StockData =
  Code :: string
  Name :: string
  Price :: real
  Volume :: "64 word"
  ROE :: real
  RevenueGrowth :: real
  DebtRatio :: real
  GrossMargin :: real
  DividendYears :: int
  YoYGrowth :: real
  EPSGrowth :: real
  EPS :: real
  MA60 :: real
  KValue :: real
  DValue :: real
  AvgVolume :: "64 word"
  Score :: real

record ScreeningCriteria =
  MinROE :: real
  MinRevenueGrowth :: real
  MaxDebtRatio :: real
  MinDividendYears :: int
  MinYoYGrowth :: real
  MinEPSGrowth :: real
  MinEPS :: real
  RequireMA60Above :: bool
  MinKValue :: real
  MaxKValue :: real
  MinDValue :: real
  MaxDValue :: real

text \<open>The criteria installed by \<^verbatim>\<open>NewStockScreener\<close>.\<close>

definition NewStockScreener_criteria :: ScreeningCriteria where
  "NewStockScreener_criteria =
     \<lparr> MinROE = 8, MinRevenueGrowth = -5, MaxDebtRatio = 60, MinDividendYears = 2,
       MinYoYGrowth = 10, MinEPSGrowth = 100, MinEPS = 1, RequireMA60Above = False,
       MinKValue = 30, MaxKValue = 85, MinDValue = 30, MaxDValue = 85 \<rparr>"

text \<open>
  The reason strings are built with \<^verbatim>\<open>fmt.Sprintf\<close> from a fixed text and, for most of
  them, the offending number. A reason is modelled by one constructor per text, carrying
  the number that the source formats into it.
\<close>

datatype reason =
    ROENonPositive
  | DebtRatioTooHigh real
  | RevenueCollapse real
  | YoYCollapse real
  | EPSGrowthCollapse real
  | EPSNonPositive
  | ROELow real
  | RevenueDecline real
  | YoYInsufficient real
  | EPSGrowthInsufficient real
  | EPSLow real
  | DebtRatioHigh real
  | DividendUnstable int
  | BelowMA60 real
  | KOutOfZone real
  | DOutOfZone real

section \<open>Stage 1: mandatory financial health\<close>

definition checkStage1Fundamentals :: "StockData \<Rightarrow> bool \<times> reason list" where
  "checkStage1Fundamentals stock =
    (let reasons = [];
         reasons = (if ROE stock \<le> 0 then reasons @ [ROENonPositive] else reasons);
         reasons = (if DebtRatio stock \<ge> 80 then reasons @ [DebtRatioTooHigh (DebtRatio stock)]
                    else reasons);
         reasons = (if RevenueGrowth stock \<le> - 20
                    then reasons @ [RevenueCollapse (RevenueGrowth stock)] else reasons);
         reasons = (if YoYGrowth stock \<le> - 30 then reasons @ [YoYCollapse (YoYGrowth stock)]
                    else reasons);
         reasons = (if EPSGrowth stock \<le> - 50
                    then reasons @ [EPSGrowthCollapse (EPSGrowth stock)] else reasons);
         reasons = (if EPS stock \<le> 0 then reasons @ [EPSNonPositive] else reasons)
     in (length reasons = 0, reasons))"

section \<open>Stage 2: investment quality\<close>

text \<open>
  Seven checks; each one either increments \<^verbatim>\<open>passCount\<close> (on either of its two
  passing branches) or appends a reason. The state of the function, the pair of
  \<^verbatim>\<open>passCount\<close> and \<^verbatim>\<open>reasons\<close>, is threaded through the checks in source order.
\<close>

definition checkStage2Quality :: "ScreeningCriteria \<Rightarrow> StockData \<Rightarrow> bool \<times> reason list" where
  "checkStage2Quality criteria stock =
    (let reasons = []; passCount = (0::int); totalChecks = (7::int);
         (passCount, reasons) =
           (if ROE stock \<ge> 15 then (passCount + 1, reasons)
            else if ROE stock \<ge> 10 then (passCount + 1, reasons)
            else (passCount, reasons @ [ROELow (ROE stock)]));
         (passCount, reasons) =
           (if RevenueGrowth stock \<ge> 10 then (passCount + 1, reasons)
            else if RevenueGrowth stock \<ge> 0 then (passCount + 1, reasons)
            else (passCount, reasons @ [RevenueDecline (RevenueGrowth stock)]));
         (passCount, reasons) =
           (if YoYGrowth stock \<ge> MinYoYGrowth criteria then (passCount + 1, reasons)
            else if YoYGrowth stock \<ge> 0 then (passCount + 1, reasons)
            else (passCount, reasons @ [YoYInsufficient (YoYGrowth stock)]));
         (passCount, reasons) =
           (if EPSGrowth stock \<ge> MinEPSGrowth criteria then (passCount + 1, reasons)
            else if EPSGrowth stock \<ge> 50 then (passCount + 1, reasons)
            else (passCount, reasons @ [EPSGrowthInsufficient (EPSGrowth stock)]));
         (passCount, reasons) =
           (if EPS stock \<ge> MinEPS criteria then (passCount + 1, reasons)
            else (passCount, reasons @ [EPSLow (EPS stock)]));
         (passCount, reasons) =
           (if DebtRatio stock \<le> 30 then (passCount + 1, reasons)
            else if DebtRatio stock \<le> 50 then (passCount + 1, reasons)
            else (passCount, reasons @ [DebtRatioHigh (DebtRatio stock)]));
         (passCount, reasons) =
           (if DividendYears stock \<ge> 5 then (passCount + 1, reasons)
            else if DividendYears stock \<ge> 3 then (passCount + 1, reasons)
            else (passCount, reasons @ [DividendUnstable (DividendYears stock)]));
         qualityPassed = (real_of_int passCount / real_of_int totalChecks \<ge> 6 / 10)
     in (qualityPassed, reasons))"

text \<open>
  The classification of stage 2 as the specification words it: a tier per metric from
  two cut points, and the number of metrics that are excellent or acceptable.
\<close>

datatype tier = Excellent | Acceptable | Fail

definition tier_at_least :: "'a::linorder \<Rightarrow> 'a \<Rightarrow> 'a \<Rightarrow> tier" where
  "tier_at_least excellent acceptable x =
     (if x \<ge> excellent then Excellent else if x \<ge> acceptable then Acceptable else Fail)"

definition tier_at_most :: "'a::linorder \<Rightarrow> 'a \<Rightarrow> 'a \<Rightarrow> tier" where
  "tier_at_most excellent acceptable x =
     (if x \<le> excellent then Excellent else if x \<le> acceptable then Acceptable else Fail)"

definition stage2_tiers_spec :: "ScreeningCriteria \<Rightarrow> StockData \<Rightarrow> tier list" where
  "stage2_tiers_spec criteria stock =
     [tier_at_least 15 10 (ROE stock),
      tier_at_least 10 0 (RevenueGrowth stock),
      tier_at_least (MinYoYGrowth criteria) 0 (YoYGrowth stock),
      tier_at_least (MinEPSGrowth criteria) 50 (EPSGrowth stock),
      (if EPS stock \<ge> MinEPS criteria then Excellent else Fail),
      tier_at_most 30 50 (DebtRatio stock),
      tier_at_least 5 3 (DividendYears stock)]"

definition stage2_passCount_spec :: "ScreeningCriteria \<Rightarrow> StockData \<Rightarrow> nat" where
  "stage2_passCount_spec criteria stock =
     length (filter (\<lambda>t. t \<noteq> Fail) (stage2_tiers_spec criteria stock))"

text \<open>
  The acceptable cut points alone, as the claim lists them: the number of the seven
  metrics that reach their acceptable cut point.
\<close>

definition stage2_cutpoints_met :: "ScreeningCriteria \<Rightarrow> StockData \<Rightarrow> nat" where
  "stage2_cutpoints_met criteria stock =
     length (filter (\<lambda>b. b)
       [ROE stock \<ge> 10, RevenueGrowth stock \<ge> 0, YoYGrowth stock \<ge> 0, EPSGrowth stock \<ge> 50,
        EPS stock \<ge> MinEPS criteria, DebtRatio stock \<le> 50, DividendYears stock \<ge> 3])"

section \<open>Stage 3: technical timing\<close>

definition checkStage3Technical :: "StockData \<Rightarrow> bool \<times> reason list" where
  "checkStage3Technical stock =
    (let reasons = []; passCount = (0::int); totalChecks = (3::int);
         (passCount, reasons) =
           (if Price stock > 0 \<and> MA60 stock > 0 then
              (let priceDiff = ((Price stock - MA60 stock) / MA60 stock) * 100
               in if priceDiff \<ge> 5 then (passCount + 1, reasons)
                  else if priceDiff \<ge> 0 then (passCount + 1, reasons)
                  else (passCount, reasons @ [BelowMA60 priceDiff]))
            else (passCount, reasons));
         (passCount, reasons) =
           (if KValue stock \<ge> 50 \<and> KValue stock \<le> 80 then (passCount + 1, reasons)
            else if KValue stock \<ge> 30 \<and> KValue stock < 90 then (passCount + 1, reasons)
            else (passCount, reasons @ [KOutOfZone (KValue stock)]));
         (passCount, reasons) =
           (if DValue stock \<ge> 50 \<and> DValue stock \<le> 80 then (passCount + 1, reasons)
            else if DValue stock \<ge> 30 \<and> DValue stock < 90 then (passCount + 1, reasons)
            else (passCount, reasons @ [DOutOfZone (DValue stock)]));
         technicalPassed = (real_of_int passCount / real_of_int totalChecks \<ge> 5 / 10)
     in (technicalPassed, reasons))"

text \<open>
  The three checks of stage 3 as the specification words them, and the number of them
  that pass. The price check is evaluated only when price and moving average are both
  positive.
\<close>

definition stage3_checks_spec :: "StockData \<Rightarrow> bool list" where
  "stage3_checks_spec stock =
     [Price stock > 0 \<and> MA60 stock > 0 \<and> (Price stock - MA60 stock) / MA60 stock * 100 \<ge> 0,
      (50 \<le> KValue stock \<and> KValue stock \<le> 80) \<or> (30 \<le> KValue stock \<and> KValue stock < 90),
      (50 \<le> DValue stock \<and> DValue stock \<le> 80) \<or> (30 \<le> DValue stock \<and> DValue stock < 90)]"

definition stage3_passCount_spec :: "StockData \<Rightarrow> nat" where
  "stage3_passCount_spec stock = length (filter (\<lambda>b. b) (stage3_checks_spec stock))"

section \<open>The staged filter\<close>

text \<open>
  \<^verbatim>\<open>meetsScreeningCriteria\<close> returns early when stage 1 fails; otherwise it runs stages 2
  and 3, whose results it only prints, and returns the stage-1 boolean.
\<close>

definition meetsScreeningCriteria :: "ScreeningCriteria \<Rightarrow> StockData \<Rightarrow> bool" where
  "meetsScreeningCriteria criteria stock =
    (let (stage1Passed, stage1Reasons) = checkStage1Fundamentals stock
     in if \<not> stage1Passed then False
        else
          (let (stage2Passed, stage2Reasons) = checkStage2Quality criteria stock;
               (stage3Passed, stage3Reasons) = checkStage3Technical stock
           in stage1Passed))"

section \<open>Composite score\<close>

text \<open>\<^verbatim>\<open>calculateScore\<close> writes the score into the stock it is given.\<close>

definition calculateScore :: "StockData \<Rightarrow> StockData" where
  "calculateScore stock =
    (let score = 0;
         score = score + min (ROE stock / 30) 1 * 15;
         score = score + min (RevenueGrowth stock / 20) 1 * 10;
         score = score + min (YoYGrowth stock / 30) 1 * 15;
         score = score + min (EPSGrowth stock / 200) 1 * 20;
         score = score + min (EPS stock / 5) 1 * 5;
         score = score + (1 - DebtRatio stock / 100) * 10;
         score = score + min (real_of_int (DividendYears stock) / 10) 1 * 5;
         score = (if Price stock > MA60 stock then score + 15 else score);
         score = (if KValue stock \<ge> 50 \<and> KValue stock \<le> 80 then score + 8 else score);
         score = (if DValue stock \<ge> 50 \<and> DValue stock \<le> 80 then score + 7 else score)
     in stock\<lparr>Score := score\<rparr>)"

text \<open>The ten terms of the score as the specification lists them.\<close>

definition score_terms_spec :: "StockData \<Rightarrow> real list" where
  "score_terms_spec stock =
     [min (ROE stock / 30) 1 * 15,
      min (RevenueGrowth stock / 20) 1 * 10,
      min (YoYGrowth stock / 30) 1 * 15,
      min (EPSGrowth stock / 200) 1 * 20,
      min (EPS stock / 5) 1 * 5,
      (1 - DebtRatio stock / 100) * 10,
      min (real_of_int (DividendYears stock) / 10) 1 * 5,
      (if Price stock > MA60 stock then 15 else 0),
      (if 50 \<le> KValue stock \<and> KValue stock \<le> 80 then 8 else 0),
      (if 50 \<le> DValue stock \<and> DValue stock \<le> 80 then 7 else 0)]"

text \<open>Scenario A of the specification, as a stock record.\<close>

definition scenarioA :: StockData where
  "scenarioA =
     \<lparr> Code = ''A'', Name = ''Scenario A'', Price = 110, Volume = 0, ROE = 20,
       RevenueGrowth = 15, DebtRatio = 20, GrossMargin = 25, DividendYears = 6,
       YoYGrowth = 25, EPSGrowth = 150, EPS = 3, MA60 = 100, KValue = 60, DValue = 65,
       AvgVolume = 0, Score = 0 \<rparr>"

text \<open>
  Two variations of scenario A for the boundary of stage 2: with a low ROE and shrinking
  revenue five of the seven checks pass; with a negative year-over-year growth as well,
  four do.
\<close>

definition fiveOfSeven :: StockData where
  "fiveOfSeven = scenarioA\<lparr>ROE := 5, RevenueGrowth := - 1\<rparr>"

definition fourOfSeven :: StockData where
  "fourOfSeven = scenarioA\<lparr>ROE := 5, RevenueGrowth := - 1, YoYGrowth := - 1\<rparr>"

text \<open>
  The four-of-seven stock with an oscillator pair of 0: it passes stage 1 and fails both
  stage 2 and stage 3.
\<close>

definition advisoryFailures :: StockData where
  "advisoryFailures = fourOfSeven\<lparr>KValue := 0, DValue := 0\<rparr>"

text \<open>
  Scenario A with every capped term at its cap and no debt: a stock that passes stage 1
  and reaches the largest score.
\<close>

definition fullMarks :: StockData where
  "fullMarks = scenarioA\<lparr>ROE := 30, RevenueGrowth := 20, DebtRatio := 0, DividendYears := 10,
                 YoYGrowth := 30, EPSGrowth := 200, EPS := 5\<rparr>"

section \<open>Technical indicators\<close>

text \<open>
  Reading a slice outside its bounds panics in Go. The panic is a value of the model.
\<close>

datatype error = IndexOutOfRange

definition index :: "'a list \<Rightarrow> nat \<Rightarrow> error + 'a" where
  "index xs i = (if i < length xs then Inr (xs ! i) else Inl IndexOutOfRange)"

record KDResult =
  K :: real
  D :: real

text \<open>
  The inner loop of \<^verbatim>\<open>calculateKDIndicator\<close>, over the days \<^verbatim>\<open>j\<close> of one window:
  it raises the running maximum of the highs and lowers the running minimum of the lows.
\<close>

fun windowLoop :: "real list \<Rightarrow> real list \<Rightarrow> nat list \<Rightarrow> real \<Rightarrow> real \<Rightarrow> error + real \<times> real" where
  "windowLoop highs lows [] highest lowest = Inr (highest, lowest)"
| "windowLoop highs lows (j # js) highest lowest =
     (case index highs j of
        Inl e \<Rightarrow> Inl e
      | Inr h \<Rightarrow>
          (let highest = (if h > highest then h else highest)
           in case index lows j of
                Inl e \<Rightarrow> Inl e
              | Inr l \<Rightarrow>
                  (let lowest = (if l < lowest then l else lowest)
                   in windowLoop highs lows js highest lowest)))"

text \<open>
  The body of the outer loop for day \<^verbatim>\<open>i\<close>: the window is \<^verbatim>\<open>[i-8, i+1)\<close>, and the raw
  stochastic value is 50 when the window has no range.
\<close>

definition rsvAt :: "real list \<Rightarrow> real list \<Rightarrow> real list \<Rightarrow> nat \<Rightarrow> error + real" where
  "rsvAt closes highs lows i =
    (let start = i - 8; end = i + 1
     in case index highs start of
          Inl e \<Rightarrow> Inl e
        | Inr highest \<Rightarrow>
            (case index lows start of
               Inl e \<Rightarrow> Inl e
             | Inr lowest \<Rightarrow>
                 (case windowLoop highs lows [start..<end] highest lowest of
                    Inl e \<Rightarrow> Inl e
                  | Inr (highest, lowest) \<Rightarrow>
                      if highest = lowest then Inr 50
                      else (case index closes i of
                              Inl e \<Rightarrow> Inl e
                            | Inr c \<Rightarrow> Inr (((c - lowest) / (highest - lowest)) * 100)))))"

fun rsvLoop :: "real list \<Rightarrow> real list \<Rightarrow> real list \<Rightarrow> nat list \<Rightarrow> real list \<Rightarrow> error + real list" where
  "rsvLoop closes highs lows [] rsvs = Inr rsvs"
| "rsvLoop closes highs lows (i # is) rsvs =
     (case rsvAt closes highs lows i of
        Inl e \<Rightarrow> Inl e
      | Inr rsv \<Rightarrow> rsvLoop closes highs lows is (rsvs @ [rsv]))"

text \<open>The smoothing loop over the raw values, oldest first.\<close>

fun smoothLoop :: "real list \<Rightarrow> real \<Rightarrow> real \<Rightarrow> KDResult" where
  "smoothLoop [] k d = \<lparr>K = k, D = d\<rparr>"
| "smoothLoop (rsv # rsvs) k d =
     (let k = (2 / 3) * k + (1 / 3) * rsv;
          d = (2 / 3) * d + (1 / 3) * k
      in smoothLoop rsvs k d)"

definition calculateKDIndicator :: "real list \<Rightarrow> real list \<Rightarrow> real list \<Rightarrow> error + KDResult" where
  "calculateKDIndicator closes highs lows =
    (if length closes < 9 then Inr \<lparr>K = 50, D = 50\<rparr>
     else
       (case rsvLoop closes highs lows [8..<length closes] [] of
          Inl e \<Rightarrow> Inl e
        | Inr rsvs \<Rightarrow>
            if length rsvs = 0 then Inr \<lparr>K = 50, D = 50\<rparr>
            else Inr (smoothLoop rsvs 50 50)))"

text \<open>
  \<^verbatim>\<open>calculateTechnicalIndicators\<close> returns at once, leaving the stock as it is, when any
  of the three series has fewer than 60 entries. Otherwise it writes the moving average
  of the last 60 closes (the indices read are below \<^verbatim>\<open>minLen\<close>, hence in range) and the
  oscillator pair of the whole, untruncated series.
\<close>

definition calculateTechnicalIndicators ::
    "StockData \<Rightarrow> real list \<Rightarrow> real list \<Rightarrow> real list \<Rightarrow> error + StockData" where
  "calculateTechnicalIndicators stock closes highs lows =
    (if length closes < 60 \<or> length highs < 60 \<or> length lows < 60 then Inr stock
     else
       (let minLen = length closes;
            minLen = (if length highs < minLen then length highs else minLen);
            minLen = (if length lows < minLen then length lows else minLen);
            stock = (if minLen \<ge> 60
                     then stock\<lparr>MA60 := foldl (\<lambda>sum i. sum + closes ! i) 0 [minLen - 60..<minLen] / 60\<rparr>
                     else stock)
        in case (if minLen \<ge> 9
                 then (case calculateKDIndicator closes highs lows of
                         Inl e \<Rightarrow> Inl e
                       | Inr kd \<Rightarrow> Inr (stock\<lparr>KValue := K kd, DValue := D kd\<rparr>))
                 else Inr stock) of
             Inl e \<Rightarrow> Inl e
           | Inr stock \<Rightarrow> Inr (stock\<lparr>AvgVolume := 0\<rparr>)))"

text \<open>
  The oscillator as the specification words it: the raw value of day \<^verbatim>\<open>i\<close> from the
  maximum of the highs and the minimum of the lows of the nine days ending at \<^verbatim>\<open>i\<close>,
  and the two smoothing recursions folded over the raw values from the seeds 50 and 50.
\<close>

definition rsv_spec :: "real list \<Rightarrow> real list \<Rightarrow> real list \<Rightarrow> nat \<Rightarrow> real" where
  "rsv_spec closes highs lows i =
    (let hi = Max (set (take 9 (drop (i - 8) highs)));
         lo = Min (set (take 9 (drop (i - 8) lows)))
     in if hi = lo then 50 else 100 * (closes ! i - lo) / (hi - lo))"

definition kd_step_spec :: "real \<times> real \<Rightarrow> real \<Rightarrow> real \<times> real" where
  "kd_step_spec kd rsv =
    (let k = (2 / 3) * fst kd + (1 / 3) * rsv in (k, (2 / 3) * snd kd + (1 / 3) * k))"

definition kd_spec :: "real list \<Rightarrow> real list \<Rightarrow> real list \<Rightarrow> real \<times> real" where
  "kd_spec closes highs lows =
     foldl kd_step_spec (50, 50) (map (rsv_spec closes highs lows) [8..<length closes])"

text \<open>
  The stock as \<^verbatim>\<open>FetchFinancialData\<close> constructs it before any data arrives: its preset
  fundamentals, every other field at Go's zero value.
\<close>

definition freshStock :: "string \<Rightarrow> StockData" where
  "freshStock stockCode =
     \<lparr> Code = stockCode, Name = [], Price = 0, Volume = 0, ROE = 10, RevenueGrowth = 3,
       DebtRatio = 35, GrossMargin = 25, DividendYears = 3, YoYGrowth = 0, EPSGrowth = 0,
       EPS = 0, MA60 = 0, KValue = 0, DValue = 0, AvgVolume = 0, Score = 0 \<rparr>"

text \<open>
  Scenario C of the specification: nine days, closes rising from 10 to 18, each high one
  above and each low one below the close.
\<close>

definition scenarioC_closes :: "real list" where
  "scenarioC_closes = [10, 11, 12, 13, 14, 15, 16, 17, 18]"

definition scenarioC_highs :: "real list" where
  "scenarioC_highs = [11, 12, 13, 14, 15, 16, 17, 18, 19]"

definition scenarioC_lows :: "real list" where
  "scenarioC_lows = [9, 10, 11, 12, 13, 14, 15, 16, 17]"

text \<open>
  A price series as the specification's data model has it: three sequences of the same
  length, every entry positive.
\<close>

definition valid_PriceSeries :: "real list \<Rightarrow> real list \<Rightarrow> real list \<Rightarrow> bool" where
  "valid_PriceSeries closes highs lows \<longleftrightarrow>
     length highs = length closes \<and> length lows = length closes
     \<and> list_all (\<lambda>x. 0 < x) closes \<and> list_all (\<lambda>x. 0 < x) highs \<and> list_all (\<lambda>x. 0 < x) lows"

text \<open>The oscillator pair of a result lies in the interval from 0 to 100.\<close>

definition kd_in_range :: "error + KDResult \<Rightarrow> bool" where
  "kd_in_range r =
     (case r of Inl e \<Rightarrow> False
      | Inr kd \<Rightarrow> 0 \<le> K kd \<and> K kd \<le> 100 \<and> 0 \<le> D kd \<and> D kd \<le> 100)"

text \<open>
  A valid series whose closes lie far above the highs: nine days closing at 100 with
  every high at 2 and every low at 1.
\<close>

definition detached_closes :: "real list" where
  "detached_closes = [100, 100, 100, 100, 100, 100, 100, 100, 100]"

definition detached_highs :: "real list" where
  "detached_highs = [2, 2, 2, 2, 2, 2, 2, 2, 2]"

definition detached_lows :: "real list" where
  "detached_lows = [1, 1, 1, 1, 1, 1, 1, 1, 1]"

text \<open>A flat series: nine days on which close, high and low are all 7.\<close>

definition flat_series :: "real list" where
  "flat_series = [7, 7, 7, 7, 7, 7, 7, 7, 7]"

text \<open>A history of exactly sixty flat days.\<close>

definition sixty_flat_days :: "real list" where
  "sixty_flat_days = replicate 60 7"

section \<open>The ranking pipeline\<close>

text \<open>
  The loop of \<^verbatim>\<open>ScreenStocks\<close>. The two fetch functions talk to the network; they are
  parameters of the model, each returning an error or a stock. A candidate whose fetch
  fails is skipped; one that meets the criteria is scored and appended.
\<close>

fun screenLoop ::
    "(string \<Rightarrow> 'e + StockData) \<Rightarrow> (StockData \<Rightarrow> 'e + StockData) \<Rightarrow> ScreeningCriteria
      \<Rightarrow> string list \<Rightarrow> StockData list \<Rightarrow> StockData list" where
  "screenLoop FetchFinancialData FetchTechnicalData criteria [] qualifiedStocks = qualifiedStocks"
| "screenLoop FetchFinancialData FetchTechnicalData criteria (code # codes) qualifiedStocks =
     (case FetchFinancialData code of
        Inl err \<Rightarrow> screenLoop FetchFinancialData FetchTechnicalData criteria codes qualifiedStocks
      | Inr stock \<Rightarrow>
          (case FetchTechnicalData stock of
             Inl err \<Rightarrow>
               screenLoop FetchFinancialData FetchTechnicalData criteria codes qualifiedStocks
           | Inr stock \<Rightarrow>
               if meetsScreeningCriteria criteria stock
               then screenLoop FetchFinancialData FetchTechnicalData criteria codes
                      (qualifiedStocks @ [calculateScore stock])
               else screenLoop FetchFinancialData FetchTechnicalData criteria codes
                      qualifiedStocks))"

text \<open>
  \<^verbatim>\<open>sort.Slice\<close> belongs to Go's standard library. Its documentation promises a slice
  sorted by the given \<^verbatim>\<open>less\<close> and states that the sort is not guaranteed to be stable.
  The model is that contract: any rearrangement of the slice in which no later element
  is \<^verbatim>\<open>less\<close> than an earlier one is a possible outcome.
\<close>

definition sortSlice :: "('a \<Rightarrow> 'a \<Rightarrow> bool) \<Rightarrow> 'a list \<Rightarrow> 'a list \<Rightarrow> bool" where
  "sortSlice lessFn xs ys \<longleftrightarrow> mset ys = mset xs \<and> sorted_wrt (\<lambda>a b. \<not> lessFn b a) ys"

text \<open>
  \<^verbatim>\<open>ScreenStocks\<close> relates the list of stock codes to every list the function may
  return: an outcome of sorting the qualified stocks with \<^verbatim>\<open>Score[i] > Score[j]\<close> as
  \<^verbatim>\<open>less\<close>.
\<close>

definition ScreenStocks ::
    "(string \<Rightarrow> 'e + StockData) \<Rightarrow> (StockData \<Rightarrow> 'e + StockData) \<Rightarrow> ScreeningCriteria
      \<Rightarrow> string list \<Rightarrow> StockData list \<Rightarrow> bool" where
  "ScreenStocks FetchFinancialData FetchTechnicalData criteria stocks result \<longleftrightarrow>
     sortSlice (\<lambda>a b. Score a > Score b)
       (screenLoop FetchFinancialData FetchTechnicalData criteria stocks []) result"

text \<open>
  The order of the result as the specification words it: the qualified stocks sorted by
  score, highest first, stocks of equal score staying in the order in which the loop
  qualified them. Insertion sort on the negated score is such a stable sort.
\<close>

definition stable_descending_spec :: "StockData list \<Rightarrow> StockData list" where
  "stable_descending_spec qualified = sort_key (\<lambda>stock. - Score stock) qualified"

text \<open>
  A fetch layer for examples: every code yields scenario A under that code, except that
  the code 0000 yields it with an ROE of 0 (scenario B of the specification); the
  technical fetch leaves the stock as it is.
\<close>

definition exampleFetchFinancialData :: "string \<Rightarrow> unit + StockData" where
  "exampleFetchFinancialData code =
     Inr (if code = ''0000'' then scenarioA\<lparr>Code := code, ROE := 0\<rparr>
          else scenarioA\<lparr>Code := code\<rparr>)"

definition exampleFetchTechnicalData :: "StockData \<Rightarrow> unit + StockData" where
  "exampleFetchTechnicalData stock = Inr stock"

text \<open>
  A second fetch layer for examples, in which the earnings per share grow with the length
  of the code, and a list of fifty codes of non-decreasing length: the first two have
  four characters each, the others five to fifty-two.
\<close>

definition rankedFetchFinancialData :: "string \<Rightarrow> unit + StockData" where
  "rankedFetchFinancialData code =
     Inr (scenarioA\<lparr>Code := code, EPS := 1 + real (length code) / 100\<rparr>)"

definition fiftyCodes :: "string list" where
  "fiftyCodes = ''2328'' # ''2330'' # map (\<lambda>n. replicate n (CHR ''9'')) [5..<53]"

section \<open>Properties of stage 1\<close>

text \<open>
  Claim C3. \<^verbatim>\<open>checkStage1Fundamentals\<close> returns false exactly when at least one of the
  six exclusion conditions holds (ROE at most 0, debt ratio at least 80, revenue growth
  at most -20, year-over-year growth at most -30, EPS growth at most -50, EPS at most 0).
  Every violated condition adds exactly one reason, and the boolean is the emptiness of
  the reason list. At the boundaries: ROE 0 fails, ROE 0.0001 passes when nothing else is
  violated; debt ratio 80 fails, 79.999 passes when nothing else is violated.
\<close>

theorem checkStage1Fundamentals_fails_iff:
  "(\<not> fst (checkStage1Fundamentals s)) =
     (ROE s \<le> 0 \<or> DebtRatio s \<ge> 80 \<or> RevenueGrowth s \<le> - 20 \<or> YoYGrowth s \<le> - 30
      \<or> EPSGrowth s \<le> - 50 \<or> EPS s \<le> 0)
   \<and> length (snd (checkStage1Fundamentals s)) =
       (if ROE s \<le> 0 then 1 else 0) + (if DebtRatio s \<ge> 80 then 1 else 0)
       + (if RevenueGrowth s \<le> - 20 then 1 else 0) + (if YoYGrowth s \<le> - 30 then 1 else 0)
       + (if EPSGrowth s \<le> - 50 then 1 else 0) + (if EPS s \<le> 0 then 1 else 0)
   \<and> fst (checkStage1Fundamentals s) = (snd (checkStage1Fundamentals s) = [])
   \<and> \<not> fst (checkStage1Fundamentals (s\<lparr>ROE := 0\<rparr>))
   \<and> \<not> fst (checkStage1Fundamentals (s\<lparr>DebtRatio := 80\<rparr>))
   \<and> (DebtRatio s < 80 \<and> RevenueGrowth s > - 20 \<and> YoYGrowth s > - 30 \<and> EPSGrowth s > - 50
        \<and> EPS s > 0 \<longrightarrow> fst (checkStage1Fundamentals (s\<lparr>ROE := 1 / 10000\<rparr>)))
   \<and> (ROE s > 0 \<and> RevenueGrowth s > - 20 \<and> YoYGrowth s > - 30 \<and> EPSGrowth s > - 50
        \<and> EPS s > 0 \<longrightarrow> fst (checkStage1Fundamentals (s\<lparr>DebtRatio := 79999 / 1000\<rparr>)))"
  by (simp add: checkStage1Fundamentals_def Let_def)

text \<open>Scenario A meets the side conditions of both boundary statements.\<close>

theorem checkStage1Fundamentals_fails_iff_witness:
  "(DebtRatio scenarioA < 80 \<and> RevenueGrowth scenarioA > - 20 \<and> YoYGrowth scenarioA > - 30
      \<and> EPSGrowth scenarioA > - 50 \<and> EPS scenarioA > 0)
   \<and> ROE scenarioA > 0
   \<and> fst (checkStage1Fundamentals (scenarioA\<lparr>ROE := 1 / 10000\<rparr>))
   \<and> fst (checkStage1Fundamentals (scenarioA\<lparr>DebtRatio := 79999 / 1000\<rparr>))
   \<and> \<not> fst (checkStage1Fundamentals (scenarioA\<lparr>ROE := 0\<rparr>))
   \<and> \<not> fst (checkStage1Fundamentals (scenarioA\<lparr>DebtRatio := 80\<rparr>))"
proof -
  have side: "DebtRatio scenarioA < 80 \<and> RevenueGrowth scenarioA > - 20
      \<and> YoYGrowth scenarioA > - 30 \<and> EPSGrowth scenarioA > - 50 \<and> EPS scenarioA > 0"
    and roe: "ROE scenarioA > 0"
    by (simp_all add: scenarioA_def)
  with checkStage1Fundamentals_fails_iff[of scenarioA] show ?thesis
    by blast
qed

section \<open>Properties of stage 2\<close>

lemma ratio_of_seven: "(real_of_int n / real_of_int 7 \<ge> 6 / 10) = (n \<ge> 5)"
  by (simp add: field_simps) linarith

lemma two_tier_step:
  "(case (if c then (p + 1, r) else if c' then (p + 1, r) else (p, r @ x)) of (a, b) \<Rightarrow> f a b)
     = f (p + (if c \<or> c' then 1 else 0)) (if c \<or> c' then r else r @ x)" for p :: int
  by simp

lemma one_tier_step:
  "(case (if c then (p + 1, r) else (p, r @ x)) of (a, b) \<Rightarrow> f a b)
     = f (p + (if c then 1 else 0)) (if c then r else r @ x)" for p :: int
  by simp

lemma count_Cons:
  "int (length (filter P (x # xs))) = (if P x then 1 else 0) + int (length (filter P xs))"
  by simp

lemma tier_at_least_pass: "(tier_at_least e a x \<noteq> Fail) = (e \<le> x \<or> a \<le> x)"
  by (simp add: tier_at_least_def)

lemma tier_at_most_pass: "(tier_at_most e a x \<noteq> Fail) = (x \<le> e \<or> x \<le> a)"
  by (simp add: tier_at_most_def)

lemma binary_pass: "((if c then Excellent else Fail) \<noteq> Fail) = c"
  by simp

text \<open>Both counts are the same sum of seven indicators.\<close>

lemma stage2_passCount_spec_sum:
  "int (stage2_passCount_spec c s) =
     (if 15 \<le> ROE s \<or> 10 \<le> ROE s then 1 else 0) +
     (if 10 \<le> RevenueGrowth s \<or> 0 \<le> RevenueGrowth s then 1 else 0) +
     (if MinYoYGrowth c \<le> YoYGrowth s \<or> 0 \<le> YoYGrowth s then 1 else 0) +
     (if MinEPSGrowth c \<le> EPSGrowth s \<or> 50 \<le> EPSGrowth s then 1 else 0) +
     (if MinEPS c \<le> EPS s then 1 else 0) +
     (if DebtRatio s \<le> 30 \<or> DebtRatio s \<le> 50 then 1 else 0) +
     (if 5 \<le> DividendYears s \<or> 3 \<le> DividendYears s then 1 else 0)"
  unfolding stage2_passCount_spec_def stage2_tiers_spec_def count_Cons
    tier_at_least_pass tier_at_most_pass binary_pass
  by (simp split del: if_split)

lemma checkStage2Quality_sum:
  "fst (checkStage2Quality c s) =
    (5 \<le> (if 15 \<le> ROE s \<or> 10 \<le> ROE s then 1 else 0) +
     (if 10 \<le> RevenueGrowth s \<or> 0 \<le> RevenueGrowth s then 1 else 0) +
     (if MinYoYGrowth c \<le> YoYGrowth s \<or> 0 \<le> YoYGrowth s then 1 else 0) +
     (if MinEPSGrowth c \<le> EPSGrowth s \<or> 50 \<le> EPSGrowth s then 1 else 0) +
     (if MinEPS c \<le> EPS s then 1 else 0) +
     (if DebtRatio s \<le> 30 \<or> DebtRatio s \<le> 50 then 1 else 0) +
     (if 5 \<le> DividendYears s \<or> 3 \<le> DividendYears s then (1::int) else 0))"
  unfolding checkStage2Quality_def Let_def two_tier_step one_tier_step fst_conv ratio_of_seven
  by (simp split del: if_split)

lemma checkStage2Quality_passCount:
  "fst (checkStage2Quality c s) = (5 \<le> stage2_passCount_spec c s)"
proof -
  have "fst (checkStage2Quality c s) = (5 \<le> int (stage2_passCount_spec c s))"
    unfolding stage2_passCount_spec_sum checkStage2Quality_sum ..
  then show ?thesis by simp
qed

lemma stage2_cutpoints_when_stricter:
  assumes "0 \<le> MinYoYGrowth c" "50 \<le> MinEPSGrowth c"
  shows "stage2_passCount_spec c s = stage2_cutpoints_met c s"
proof -
  have e1: "(15 \<le> ROE s \<or> 10 \<le> ROE s) = (10 \<le> ROE s)" by auto
  have e2: "(10 \<le> RevenueGrowth s \<or> 0 \<le> RevenueGrowth s) = (0 \<le> RevenueGrowth s)" by auto
  have e3: "(MinYoYGrowth c \<le> YoYGrowth s \<or> 0 \<le> YoYGrowth s) = (0 \<le> YoYGrowth s)"
    using assms by auto
  have e4: "(MinEPSGrowth c \<le> EPSGrowth s \<or> 50 \<le> EPSGrowth s) = (50 \<le> EPSGrowth s)"
    using assms by auto
  have e6: "(DebtRatio s \<le> 30 \<or> DebtRatio s \<le> 50) = (DebtRatio s \<le> 50)" by auto
  have e7: "(5 \<le> DividendYears s \<or> 3 \<le> DividendYears s) = (3 \<le> DividendYears s)" by auto
  have "int (stage2_cutpoints_met c s) = int (stage2_passCount_spec c s)"
    unfolding stage2_passCount_spec_sum e1 e2 e3 e4 e6 e7
    unfolding stage2_cutpoints_met_def count_Cons
    by (simp split del: if_split)
  then show ?thesis by simp
qed

text \<open>
  Claim C6. \<^verbatim>\<open>checkStage2Quality\<close> returns true exactly when at least 5 of the 7
  metrics are classified excellent or acceptable, that is when the pass count divided by
  7 is at least 0.6. Whenever the configured excellent thresholds are the stricter ones
  (as in the criteria of \<^verbatim>\<open>NewStockScreener\<close>), the pass count is the number of metrics
  that reach the acceptable cut points ROE 10, revenue growth 0, year-over-year growth 0,
  EPS growth 50, EPS \<^verbatim>\<open>MinEPS\<close>, debt ratio 50, dividend years 3. With 4 of 7 the stage
  fails and with 5 of 7 it passes.
\<close>

theorem checkStage2Quality_five_of_seven:
  "fst (checkStage2Quality criteria stock) = (5 \<le> stage2_passCount_spec criteria stock)
   \<and> fst (checkStage2Quality criteria stock) =
       (real (stage2_passCount_spec criteria stock) / 7 \<ge> 6 / 10)
   \<and> (0 \<le> MinYoYGrowth criteria \<and> 50 \<le> MinEPSGrowth criteria \<longrightarrow>
        fst (checkStage2Quality criteria stock) = (5 \<le> stage2_cutpoints_met criteria stock))
   \<and> stage2_passCount_spec NewStockScreener_criteria fourOfSeven = 4
   \<and> \<not> fst (checkStage2Quality NewStockScreener_criteria fourOfSeven)
   \<and> stage2_passCount_spec NewStockScreener_criteria fiveOfSeven = 5
   \<and> fst (checkStage2Quality NewStockScreener_criteria fiveOfSeven)"
proof -
  have ratio: "(real n / 7 \<ge> 6 / 10) = (5 \<le> n)" for n :: nat
    by (simp add: field_simps) linarith
  have four: "stage2_passCount_spec NewStockScreener_criteria fourOfSeven = 4"
    by (simp add: stage2_passCount_spec_def stage2_tiers_spec_def tier_at_least_def
        tier_at_most_def fourOfSeven_def scenarioA_def NewStockScreener_criteria_def)
  have five: "stage2_passCount_spec NewStockScreener_criteria fiveOfSeven = 5"
    by (simp add: stage2_passCount_spec_def stage2_tiers_spec_def tier_at_least_def
        tier_at_most_def fiveOfSeven_def scenarioA_def NewStockScreener_criteria_def)
  have count: "fst (checkStage2Quality criteria stock) = (5 \<le> stage2_passCount_spec criteria stock)"
    by (rule checkStage2Quality_passCount)
  have quotient: "fst (checkStage2Quality criteria stock) =
      (real (stage2_passCount_spec criteria stock) / 7 \<ge> 6 / 10)"
    by (simp only: count ratio)
  have cut: "fst (checkStage2Quality criteria stock) = (5 \<le> stage2_cutpoints_met criteria stock)"
    if "0 \<le> MinYoYGrowth criteria \<and> 50 \<le> MinEPSGrowth criteria"
    using that stage2_cutpoints_when_stricter[of criteria stock] count by simp
  have fails: "\<not> fst (checkStage2Quality NewStockScreener_criteria fourOfSeven)"
    by (simp add: checkStage2Quality_passCount four)
  have passes: "fst (checkStage2Quality NewStockScreener_criteria fiveOfSeven)"
    by (simp add: checkStage2Quality_passCount five)
  show ?thesis
    using count quotient cut four fails five passes by blast
qed

text \<open>
  The criteria of \<^verbatim>\<open>NewStockScreener\<close> have the stricter excellent thresholds; the
  five-of-seven stock reaches five acceptable cut points and passes.
\<close>

theorem checkStage2Quality_five_of_seven_witness:
  "0 \<le> MinYoYGrowth NewStockScreener_criteria \<and> 50 \<le> MinEPSGrowth NewStockScreener_criteria
   \<and> stage2_cutpoints_met NewStockScreener_criteria fiveOfSeven = 5
   \<and> fst (checkStage2Quality NewStockScreener_criteria fiveOfSeven)"
  using checkStage2Quality_five_of_seven[of NewStockScreener_criteria fiveOfSeven]
  by (simp add: stage2_cutpoints_met_def fiveOfSeven_def scenarioA_def
      NewStockScreener_criteria_def)

section \<open>Properties of the composite score\<close>

lemma Score_calculateScore: "Score (calculateScore s) = sum_list (score_terms_spec s)"
  by (simp add: calculateScore_def score_terms_spec_def Let_def)

lemma score_terms_capped:
  "min (ROE s / 30) 1 * 15 \<le> 15" "min (RevenueGrowth s / 20) 1 * 10 \<le> 10"
  "min (YoYGrowth s / 30) 1 * 15 \<le> 15" "min (EPSGrowth s / 200) 1 * 20 \<le> 20"
  "min (EPS s / 5) 1 * 5 \<le> 5" "min (real_of_int (DividendYears s) / 10) 1 * 5 \<le> 5"
  "(if Price s > MA60 s then 15 else 0) \<le> (15::real)"
  "(if 50 \<le> KValue s \<and> KValue s \<le> 80 then 8 else 0) \<le> (8::real)"
  "(if 50 \<le> DValue s \<and> DValue s \<le> 80 then 7 else 0) \<le> (7::real)"
  by simp_all

text \<open>The nine capped weights add up to 100, so the score is at most 100 plus the debt term.\<close>

lemma ten_terms_bound:
  fixes a1 a2 a3 a4 a5 d a7 a8 a9 a10 :: real
  assumes "a1 \<le> 15" "a2 \<le> 10" "a3 \<le> 15" "a4 \<le> 20" "a5 \<le> 5" "a7 \<le> 5" "a8 \<le> 15" "a9 \<le> 8"
    "a10 \<le> 7"
  shows "sum_list [a1, a2, a3, a4, a5, d, a7, a8, a9, a10] \<le> 100 + d"
  using assms by simp

lemma score_le_100_plus_debt:
  "Score (calculateScore s) \<le> 100 + (1 - DebtRatio s / 100) * 10"
  unfolding Score_calculateScore score_terms_spec_def
  by (rule ten_terms_bound) (rule score_terms_capped)+

text \<open>
  The bound of 100 that claim C4 draws from the ten terms fails: with every capped term at
  its cap and a debt ratio of 0, the weights 15, 10, 15, 20, 5, 10, 5, 15, 8 and 7 add up
  to 110.
\<close>

theorem calculateScore_exceeds_100:
  "fst (checkStage1Fundamentals fullMarks) \<and> DebtRatio fullMarks \<ge> 0
   \<and> \<not> Score (calculateScore fullMarks) \<le> 100"
  by (simp add: fullMarks_def scenarioA_def calculateScore_def checkStage1Fundamentals_def)

text \<open>
  Claim C4, amended. For every input \<^verbatim>\<open>calculateScore\<close> stores exactly the sum of the ten
  listed terms. Consequently the score is at most 110 whenever the debt ratio is not
  negative, and 110 is reached. Each of the nine terms other than the debt-ratio term is
  bounded by its weight, while the debt-ratio term exceeds any bound for a suitable debt
  ratio; and the total is negative for large debt ratios (always so above 1100).
\<close>

theorem calculateScore_sum_of_ten_terms:
  "Score (calculateScore s) = sum_list (score_terms_spec s)
   \<and> length (score_terms_spec s) = 10
   \<and> (DebtRatio s \<ge> 0 \<longrightarrow> Score (calculateScore s) \<le> 110)
   \<and> Score (calculateScore fullMarks) = 110
   \<and> list_all2 (\<le>) (take 5 (score_terms_spec s) @ drop 6 (score_terms_spec s))
        [15, 10, 15, 20, 5, 5, 15, 8, 7]
   \<and> score_terms_spec (s\<lparr>DebtRatio := - 10 * \<bar>b\<bar>\<rparr>) ! 5 > b
   \<and> (DebtRatio s > 1100 \<longrightarrow> Score (calculateScore s) < 0)"
proof -
  have bound: "Score (calculateScore s) \<le> 110" if "DebtRatio s \<ge> 0"
  proof -
    have "(1 - DebtRatio s / 100) * 10 \<le> 10" using that by simp
    with score_le_100_plus_debt[of s] show ?thesis by linarith
  qed
  have neg: "Score (calculateScore s) < 0" if "DebtRatio s > 1100"
  proof -
    have "(1 - DebtRatio s / 100) * 10 < - 100" using that by simp
    with score_le_100_plus_debt[of s] show ?thesis by linarith
  qed
  have top: "Score (calculateScore fullMarks) = 110"
    by (simp add: fullMarks_def scenarioA_def calculateScore_def)
  have caps: "list_all2 (\<le>) (take 5 (score_terms_spec s) @ drop 6 (score_terms_spec s))
        [15, 10, 15, 20, 5, 5, 15, 8, 7]"
    using score_terms_capped[of s] by (simp add: score_terms_spec_def)
  have unc: "score_terms_spec (s\<lparr>DebtRatio := - 10 * \<bar>b\<bar>\<rparr>) ! 5 > b"
  proof -
    have "(1 - (- 10 * \<bar>b\<bar>) / 100) * 10 = 10 + \<bar>b\<bar>" by (simp add: field_simps)
    then show ?thesis by (simp add: score_terms_spec_def)
  qed
  have len: "length (score_terms_spec s) = 10"
    by (simp add: score_terms_spec_def)
  show ?thesis
    using bound neg top caps unc len Score_calculateScore by blast
qed

text \<open>Scenario A with a debt ratio of 2000 meets both side conditions; its score is -109.\<close>

theorem calculateScore_sum_of_ten_terms_witness:
  "DebtRatio (scenarioA\<lparr>DebtRatio := 2000\<rparr>) \<ge> 0
   \<and> DebtRatio (scenarioA\<lparr>DebtRatio := 2000\<rparr>) > 1100
   \<and> Score (calculateScore (scenarioA\<lparr>DebtRatio := 2000\<rparr>)) = - 109
   \<and> Score (calculateScore (scenarioA\<lparr>DebtRatio := 2000\<rparr>)) \<le> 110
   \<and> Score (calculateScore (scenarioA\<lparr>DebtRatio := 2000\<rparr>)) < 0"
  using calculateScore_sum_of_ten_terms[of "scenarioA\<lparr>DebtRatio := 2000\<rparr>" 0]
  by (simp add: scenarioA_def score_terms_spec_def)

text \<open>
  Claim C10. \<^verbatim>\<open>calculateScore\<close> adds the 15 points whenever the price is above
  \<^verbatim>\<open>MA60\<close>, with no test for \<^verbatim>\<open>MA60\<close> being the value 0 that stands for "not computed":
  a stock priced above its moving average scores exactly 15 more than the same stock
  priced at the moving average. A stock whose price history is shorter than 60 entries
  comes back from \<^verbatim>\<open>calculateTechnicalIndicators\<close> unchanged, so with \<^verbatim>\<open>MA60\<close> still 0 and
  a positive price its score contains the full 15 points.
\<close>

theorem calculateScore_bonus_without_moving_average:
  "(Price stock > MA60 stock \<longrightarrow>
      Score (calculateScore stock) = Score (calculateScore (stock\<lparr>Price := MA60 stock\<rparr>)) + 15)
   \<and> ((length closes < 60 \<or> length highs < 60 \<or> length lows < 60) \<and> MA60 stock = 0
        \<and> Price stock > 0 \<longrightarrow>
        calculateTechnicalIndicators stock closes highs lows = Inr stock
        \<and> score_terms_spec stock ! 7 = 15
        \<and> Score (calculateScore stock) = Score (calculateScore (stock\<lparr>Price := 0\<rparr>)) + 15)"
  by (simp add: calculateScore_def calculateTechnicalIndicators_def score_terms_spec_def Let_def)

text \<open>
  A freshly constructed stock quoted at 50 with the nine-day history of scenario C: the
  moving average stays 0 and the score of 29.5 contains the 15 points.
\<close>

theorem calculateScore_bonus_without_moving_average_witness:
  "Price ((freshStock ''2330'')\<lparr>Price := 50\<rparr>) > MA60 ((freshStock ''2330'')\<lparr>Price := 50\<rparr>)
   \<and> length scenarioC_closes < 60
   \<and> MA60 ((freshStock ''2330'')\<lparr>Price := 50\<rparr>) = 0
   \<and> Price ((freshStock ''2330'')\<lparr>Price := 50\<rparr>) > 0
   \<and> calculateTechnicalIndicators ((freshStock ''2330'')\<lparr>Price := 50\<rparr>)
        scenarioC_closes scenarioC_highs scenarioC_lows = Inr ((freshStock ''2330'')\<lparr>Price := 50\<rparr>)
   \<and> Score (calculateScore ((freshStock ''2330'')\<lparr>Price := 50\<rparr>)) = 59 / 2
   \<and> Score (calculateScore ((freshStock ''2330'')\<lparr>Price := 0\<rparr>)) = 29 / 2"
  using calculateScore_bonus_without_moving_average
          [of "(freshStock ''2330'')\<lparr>Price := 50\<rparr>" scenarioC_closes scenarioC_highs scenarioC_lows]
  by (simp add: freshStock_def scenarioC_closes_def calculateScore_def)

section \<open>Scenario A\<close>

lemma ratio_of_three: "(real_of_int n / real_of_int 3 \<ge> 5 / 10) = (n \<ge> 2)"
  by (simp add: field_simps) linarith

text \<open>Stage 3 passes exactly when at least two of its three checks pass.\<close>

lemma checkStage3Technical_passCount:
  "fst (checkStage3Technical s) = (2 \<le> stage3_passCount_spec s)"
  by (simp add: checkStage3Technical_def stage3_passCount_spec_def stage3_checks_spec_def
      Let_def ratio_of_three)

text \<open>
  The score that claim C8 expects for scenario A is not the one computed: the ROE term
  of an ROE of 20 is 10, not 15, and the dividend term of 6 years is 3, not 5.
\<close>

theorem scenarioA_score_is_not_96:
  "Score (calculateScore scenarioA) \<noteq> 96"
  by (simp add: calculateScore_def scenarioA_def)

text \<open>
  Claim C8, amended. For scenario A (ROE 20, revenue growth 15, year-over-year growth
  25, EPS growth 150, EPS 3, debt ratio 20, 6 dividend years, price 110, moving average
  100, K 60, D 65) under the criteria of \<^verbatim>\<open>NewStockScreener\<close>: stage 1 passes, stage 2
  passes with 7 of 7 checks, stage 3 passes with 3 of 3 checks, no stage gives a reason,
  and \<^verbatim>\<open>calculateScore\<close> stores exactly 89, the sum 10 + 7.5 + 12.5 + 15 + 3 + 8 + 3 + 15
  + 8 + 7.
\<close>

theorem scenarioA_verdict:
  "checkStage1Fundamentals scenarioA = (True, [])
   \<and> checkStage2Quality NewStockScreener_criteria scenarioA = (True, [])
   \<and> stage2_passCount_spec NewStockScreener_criteria scenarioA = 7
   \<and> checkStage3Technical scenarioA = (True, [])
   \<and> stage3_passCount_spec scenarioA = 3
   \<and> score_terms_spec scenarioA = [10, 15 / 2, 25 / 2, 15, 3, 8, 3, 15, 8, 7]
   \<and> Score (calculateScore scenarioA) = 89"
proof -
  have s1: "checkStage1Fundamentals scenarioA = (True, [])"
    by (simp add: checkStage1Fundamentals_def scenarioA_def)
  have s2: "checkStage2Quality NewStockScreener_criteria scenarioA = (True, [])"
    by (simp add: checkStage2Quality_def scenarioA_def NewStockScreener_criteria_def)
  have c2: "stage2_passCount_spec NewStockScreener_criteria scenarioA = 7"
    by (simp add: stage2_passCount_spec_def stage2_tiers_spec_def tier_at_least_def
        tier_at_most_def scenarioA_def NewStockScreener_criteria_def)
  have s3: "checkStage3Technical scenarioA = (True, [])"
    by (simp add: checkStage3Technical_def scenarioA_def)
  have c3: "stage3_passCount_spec scenarioA = 3"
    by (simp add: stage3_passCount_spec_def stage3_checks_spec_def scenarioA_def)
  have terms: "score_terms_spec scenarioA = [10, 15 / 2, 25 / 2, 15, 3, 8, 3, 15, 8, 7]"
    by (simp add: score_terms_spec_def scenarioA_def)
  have score: "Score (calculateScore scenarioA) = 89"
    by (simp add: calculateScore_def scenarioA_def)
  show ?thesis
    using s1 s2 c2 s3 c3 terms score by blast
qed

section \<open>Properties of the stochastic oscillator\<close>

lemma index_in_range: "i < length xs \<Longrightarrow> index xs i = Inr (xs ! i)"
  by (simp add: index_def)

text \<open>
  The inner loop computes the maximum of the highs and the minimum of the lows over the
  days it visits, the starting values included.
\<close>

lemma windowLoop_Max_Min:
  "\<forall>j \<in> set js. j < length highs \<and> j < length lows \<Longrightarrow>
     windowLoop highs lows js highest lowest =
       Inr (Max (insert highest ((!) highs ` set js)), Min (insert lowest ((!) lows ` set js)))"
proof (induction js arbitrary: highest lowest)
  case Nil
  show ?case by simp
next
  case (Cons j js)
  have mx: "Max (insert (max highest (highs ! j)) ((!) highs ` set js))
              = Max (insert highest (insert (highs ! j) ((!) highs ` set js)))"
    by (cases "js = []") (simp_all add: max.assoc)
  have mn: "Min (insert (min lowest (lows ! j)) ((!) lows ` set js))
              = Min (insert lowest (insert (lows ! j) ((!) lows ` set js)))"
    by (cases "js = []") (simp_all add: min.assoc)
  have hi: "(if highs ! j > highest then highs ! j else highest) = max highest (highs ! j)"
    by (simp add: max_def)
  have lo: "(if lows ! j < lowest then lows ! j else lowest) = min lowest (lows ! j)"
    by (simp add: min_def)
  from Cons.prems have "j < length highs" "j < length lows"
    and rest: "\<forall>j \<in> set js. j < length highs \<and> j < length lows" by simp_all
  then show ?case
    by (simp add: index_in_range Let_def hi lo Cons.IH[OF rest] mx mn del: Max_insert Min_insert)
qed

lemma window_as_map: "s + n \<le> length xs \<Longrightarrow> take n (drop s xs) = map ((!) xs) [s..<s + n]"
  by (auto simp: list_eq_iff_nth_eq)

lemma window_set:
  "s + 9 \<le> length xs \<Longrightarrow> insert (xs ! s) ((!) xs ` set [s..<s + 9]) = set (take 9 (drop s xs))"
  by (auto simp: window_as_map)

lemma window_nth:
  assumes "8 \<le> i" "i < length xs"
  shows "xs ! i \<in> set (take 9 (drop (i - 8) xs))"
proof -
  have "(i - 8) + 9 \<le> length xs" using assms by simp
  then have "take 9 (drop (i - 8) xs) = map ((!) xs) [i - 8..<i - 8 + 9]" by (rule window_as_map)
  moreover have "i \<in> set [i - 8..<i - 8 + 9]" using assms by simp
  ultimately show ?thesis by simp
qed

lemma rsvAt_rsv_spec:
  assumes "8 \<le> i" "i < length closes" "length closes \<le> length highs" "length closes \<le> length lows"
  shows "rsvAt closes highs lows i = Inr (rsv_spec closes highs lows i)"
proof -
  have r: "\<forall>j \<in> set [i - 8..<i - 8 + 9]. j < length highs \<and> j < length lows"
    using assms by auto
  have e: "i + 1 = (i - 8) + 9" using assms by simp
  have sh: "(i - 8) + 9 \<le> length highs" and sl: "(i - 8) + 9 \<le> length lows"
    using assms by simp_all
  have ih: "index highs (i - 8) = Inr (highs ! (i - 8))" "index lows (i - 8) = Inr (lows ! (i - 8))"
    "index closes i = Inr (closes ! i)"
    using assms by (simp_all add: index_in_range)
  have w: "windowLoop highs lows [i - 8..<i - 8 + 9] (highs ! (i - 8)) (lows ! (i - 8)) =
             Inr (Max (set (take 9 (drop (i - 8) highs))), Min (set (take 9 (drop (i - 8) lows))))"
    by (simp only: windowLoop_Max_Min[OF r] window_set[OF sh] window_set[OF sl])
  show ?thesis
    by (simp only: rsvAt_def Let_def ih sum.case e w prod.case rsv_spec_def) simp
qed

lemma rsvLoop_rsv_spec:
  assumes "\<forall>i \<in> set is. 8 \<le> i \<and> i < length closes"
    "length closes \<le> length highs" "length closes \<le> length lows"
  shows "rsvLoop closes highs lows is rsvs = Inr (rsvs @ map (rsv_spec closes highs lows) is)"
  using assms(1)
proof (induction "is" arbitrary: rsvs)
  case Nil
  show ?case by simp
next
  case (Cons i "is")
  then show ?case
    by (simp add: rsvAt_rsv_spec[OF _ _ assms(2,3)])
qed

lemma smoothLoop_foldl:
  "smoothLoop rsvs k d =
     \<lparr>K = fst (foldl kd_step_spec (k, d) rsvs), D = snd (foldl kd_step_spec (k, d) rsvs)\<rparr>"
  by (induction rsvs arbitrary: k d) (simp_all add: kd_step_spec_def Let_def)

lemma calculateKDIndicator_kd_spec:
  assumes "length closes \<le> length highs" "length closes \<le> length lows"
  shows "calculateKDIndicator closes highs lows =
           Inr \<lparr>K = fst (kd_spec closes highs lows), D = snd (kd_spec closes highs lows)\<rparr>"
proof (cases "length closes < 9")
  case True
  then show ?thesis by (simp add: calculateKDIndicator_def kd_spec_def)
next
  case False
  have r: "\<forall>i \<in> set [8..<length closes]. 8 \<le> i \<and> i < length closes" by simp
  show ?thesis
    using False
    by (simp add: calculateKDIndicator_def kd_spec_def rsvLoop_rsv_spec[OF r assms]
        smoothLoop_foldl)
qed

text \<open>
  Claim C2. For at least 9 samples (with highs and lows for every close)
  \<^verbatim>\<open>calculateKDIndicator\<close> returns the pair obtained by folding the two smoothing
  recursions, in chronological order and from the seeds 50 and 50, over the raw values of
  the days from the ninth on; the loop body computes each raw value as 100 times close
  minus lowest low over highest high minus lowest low of the nine-day window, and the raw
  value is 50 when the window's highest high equals its lowest low. For fewer than 9
  samples the result is the pair 50 and 50.
\<close>

theorem calculateKDIndicator_folds_recursion:
  "(9 \<le> length closes \<and> length closes \<le> length highs \<and> length closes \<le> length lows \<longrightarrow>
      calculateKDIndicator closes highs lows =
        Inr \<lparr>K = fst (kd_spec closes highs lows), D = snd (kd_spec closes highs lows)\<rparr>)
   \<and> (8 \<le> i \<and> i < length closes \<and> length closes \<le> length highs
        \<and> length closes \<le> length lows \<longrightarrow>
        rsvAt closes highs lows i = Inr (rsv_spec closes highs lows i))
   \<and> (Max (set (take 9 (drop (i - 8) highs))) = Min (set (take 9 (drop (i - 8) lows))) \<longrightarrow>
        rsv_spec closes highs lows i = 50)
   \<and> (length closes < 9 \<longrightarrow> calculateKDIndicator closes highs lows = Inr \<lparr>K = 50, D = 50\<rparr>)"
proof -
  have short: "calculateKDIndicator closes highs lows = Inr \<lparr>K = 50, D = 50\<rparr>"
    if "length closes < 9"
    using that by (simp add: calculateKDIndicator_def)
  have flat: "rsv_spec closes highs lows i = 50"
    if "Max (set (take 9 (drop (i - 8) highs))) = Min (set (take 9 (drop (i - 8) lows)))"
    using that by (simp add: rsv_spec_def)
  show ?thesis
    using calculateKDIndicator_kd_spec[of closes highs lows] rsvAt_rsv_spec[of i closes highs lows]
      short flat
    by blast
qed

text \<open>
  Scenario C has one window; its raw value is 90, so one smoothing step from the seeds
  gives K = 190/3 and D = 490/9. The flat series has a window without range. Three
  samples are fewer than nine.
\<close>

theorem calculateKDIndicator_folds_recursion_witness:
  "9 \<le> length scenarioC_closes \<and> length scenarioC_closes \<le> length scenarioC_highs
   \<and> length scenarioC_closes \<le> length scenarioC_lows
   \<and> calculateKDIndicator scenarioC_closes scenarioC_highs scenarioC_lows
       = Inr \<lparr>K = 190 / 3, D = 490 / 9\<rparr>
   \<and> rsvAt scenarioC_closes scenarioC_highs scenarioC_lows 8 = Inr 90
   \<and> Max (set (take 9 (drop (8 - 8) flat_series))) = Min (set (take 9 (drop (8 - 8) flat_series)))
   \<and> rsv_spec flat_series flat_series flat_series 8 = 50
   \<and> length (take 3 scenarioC_closes) < 9
   \<and> calculateKDIndicator (take 3 scenarioC_closes) [] [] = Inr \<lparr>K = 50, D = 50\<rparr>"
  using calculateKDIndicator_folds_recursion
          [of scenarioC_closes scenarioC_highs scenarioC_lows 8]
        calculateKDIndicator_folds_recursion [of flat_series flat_series flat_series 8]
        calculateKDIndicator_folds_recursion [of "take 3 scenarioC_closes" "[]" "[]" 0]
  by (simp add: kd_spec_def rsv_spec_def kd_step_spec_def scenarioC_closes_def
      scenarioC_highs_def scenarioC_lows_def flat_series_def)

text \<open>Smoothing keeps both values between 0 and 100 when every raw value is.\<close>

lemma rsv_spec_range:
  assumes "8 \<le> i" "i < length closes" "length highs = length closes" "length lows = length closes"
    "lows ! i \<le> closes ! i" "closes ! i \<le> highs ! i"
  shows "0 \<le> rsv_spec closes highs lows i \<and> rsv_spec closes highs lows i \<le> 100"
proof -
  define hi where "hi = Max (set (take 9 (drop (i - 8) highs)))"
  define lo where "lo = Min (set (take 9 (drop (i - 8) lows)))"
  have "highs ! i \<le> hi" unfolding hi_def using assms by (intro Max_ge window_nth) simp_all
  moreover have "lo \<le> lows ! i" unfolding lo_def using assms by (intro Min_le window_nth) simp_all
  ultimately have b: "lo \<le> closes ! i" "closes ! i \<le> hi" using assms by linarith+
  have r: "rsv_spec closes highs lows i = (if hi = lo then 50 else 100 * (closes ! i - lo) / (hi - lo))"
    by (simp add: rsv_spec_def hi_def lo_def Let_def)
  show ?thesis
  proof (cases "hi = lo")
    case True
    then show ?thesis by (simp add: r)
  next
    case False
    with b have "lo < hi" by linarith
    with b show ?thesis by (simp add: r field_simps)
  qed
qed

lemma kd_step_spec_range:
  assumes "0 \<le> fst kd" "fst kd \<le> 100" "0 \<le> snd kd" "snd kd \<le> 100" "0 \<le> rsv" "rsv \<le> 100"
  shows "0 \<le> fst (kd_step_spec kd rsv) \<and> fst (kd_step_spec kd rsv) \<le> 100
       \<and> 0 \<le> snd (kd_step_spec kd rsv) \<and> snd (kd_step_spec kd rsv) \<le> 100"
proof -
  define k where "k = (2 / 3) * fst kd + (1 / 3) * rsv"
  have k: "0 \<le> k" "k \<le> 100" using assms unfolding k_def by linarith+
  have d: "0 \<le> (2 / 3) * snd kd + (1 / 3) * k" "(2 / 3) * snd kd + (1 / 3) * k \<le> 100"
    using assms k by linarith+
  show ?thesis
    using k d by (simp add: kd_step_spec_def Let_def k_def)
qed

lemma foldl_kd_step_spec_range:
  assumes "\<forall>rsv \<in> set rsvs. 0 \<le> rsv \<and> rsv \<le> 100"
    "0 \<le> fst kd" "fst kd \<le> 100" "0 \<le> snd kd" "snd kd \<le> 100"
  shows "0 \<le> fst (foldl kd_step_spec kd rsvs) \<and> fst (foldl kd_step_spec kd rsvs) \<le> 100
       \<and> 0 \<le> snd (foldl kd_step_spec kd rsvs) \<and> snd (foldl kd_step_spec kd rsvs) \<le> 100"
  using assms
proof (induction rsvs arbitrary: kd)
  case Nil
  then show ?case by simp
next
  case (Cons rsv rsvs)
  have "0 \<le> rsv" "rsv \<le> 100" using Cons.prems(1) by simp_all
  from kd_step_spec_range[OF Cons.prems(2-5) this] Cons.prems(1)
  show ?case by (simp add: Cons.IH)
qed

text \<open>
  The range that claim C5 states fails for a valid series: nothing ties a close to the
  highs and lows of its window. Nine closes of 100 over highs of 2 and lows of 1 give a
  raw value of 9900 and K = 10000/3.
\<close>

theorem calculateKDIndicator_leaves_range:
  "valid_PriceSeries detached_closes detached_highs detached_lows
   \<and> 9 \<le> length detached_closes
   \<and> calculateKDIndicator detached_closes detached_highs detached_lows
       = Inr \<lparr>K = 10000 / 3, D = 10300 / 9\<rparr>
   \<and> \<not> kd_in_range (calculateKDIndicator detached_closes detached_highs detached_lows)"
  by (simp add: valid_PriceSeries_def detached_closes_def detached_highs_def detached_lows_def
      kd_in_range_def calculateKDIndicator_def rsvAt_def index_def)

text \<open>
  Claim C5, amended. For every price series of three sequences of equal length in which
  each day's close lies between that day's low and that day's high,
  \<^verbatim>\<open>calculateKDIndicator\<close> returns a pair, and both K and D lie between 0 and 100.
\<close>

theorem calculateKDIndicator_in_range:
  assumes "list_all2 (\<le>) lows closes" "list_all2 (\<le>) closes highs"
  shows "kd_in_range (calculateKDIndicator closes highs lows)"
proof -
  have len: "length highs = length closes" "length lows = length closes"
    using assms by (simp_all add: list_all2_lengthD)
  have day: "lows ! j \<le> closes ! j \<and> closes ! j \<le> highs ! j" if "j < length closes" for j
    using that assms len by (simp add: list_all2_nthD list_all2_nthD2)
  have "0 \<le> rsv_spec closes highs lows i \<and> rsv_spec closes highs lows i \<le> 100"
    if "i \<in> set [8..<length closes]" for i
    using that len day[of i] rsv_spec_range[of i closes highs lows] by simp
  then have "\<forall>rsv \<in> set (map (rsv_spec closes highs lows) [8..<length closes]).
               0 \<le> rsv \<and> rsv \<le> 100"
    by auto
  then have "0 \<le> fst (kd_spec closes highs lows) \<and> fst (kd_spec closes highs lows) \<le> 100
       \<and> 0 \<le> snd (kd_spec closes highs lows) \<and> snd (kd_spec closes highs lows) \<le> 100"
    unfolding kd_spec_def by (rule foldl_kd_step_spec_range) simp_all
  then show ?thesis
    using len by (simp add: calculateKDIndicator_kd_spec kd_in_range_def)
qed

text \<open>Scenario C keeps every close between its low and its high.\<close>

theorem calculateKDIndicator_in_range_witness:
  "list_all2 (\<le>) scenarioC_lows scenarioC_closes \<and> list_all2 (\<le>) scenarioC_closes scenarioC_highs
   \<and> valid_PriceSeries scenarioC_closes scenarioC_highs scenarioC_lows
   \<and> 9 \<le> length scenarioC_closes
   \<and> kd_in_range (calculateKDIndicator scenarioC_closes scenarioC_highs scenarioC_lows)"
proof -
  have lo: "list_all2 (\<le>) scenarioC_lows scenarioC_closes"
    and hi: "list_all2 (\<le>) scenarioC_closes scenarioC_highs"
    by (simp_all add: scenarioC_closes_def scenarioC_highs_def scenarioC_lows_def)
  have valid: "valid_PriceSeries scenarioC_closes scenarioC_highs scenarioC_lows"
    "9 \<le> length scenarioC_closes"
    by (simp_all add: valid_PriceSeries_def scenarioC_closes_def scenarioC_highs_def
        scenarioC_lows_def)
  from calculateKDIndicator_in_range[OF lo hi] lo hi valid show ?thesis by blast
qed

section \<open>Properties of the indicator calculation\<close>

lemma foldl_add_nth:
  "foldl (\<lambda>sum i. sum + xs ! i) a is = a + sum_list (map ((!) xs) is)" for a :: real
  by (induction "is" arbitrary: a) simp_all

text \<open>The summation loop adds up the sixty entries that end at \<^verbatim>\<open>minLen\<close>.\<close>

lemma moving_average_sum:
  fixes closes :: "real list"
  assumes "60 \<le> n" "n \<le> length closes"
  shows "foldl (\<lambda>sum i. sum + closes ! i) 0 [n - 60..<n] = sum_list (take 60 (drop (n - 60) closes))"
proof -
  have "(n - 60) + 60 \<le> length closes" using assms by simp
  then have "take 60 (drop (n - 60) closes) = map ((!) closes) [n - 60..<n - 60 + 60]"
    by (rule window_as_map)
  moreover have "n - 60 + 60 = n" using assms by simp
  ultimately show ?thesis by (simp add: foldl_add_nth)
qed

text \<open>
  The oscillator that claim C7 expects for a history of at least 9 but fewer than 60
  samples is not computed. On the nine days of scenario C a fresh stock comes back
  unchanged, K and D still 0, while \<^verbatim>\<open>calculateKDIndicator\<close> on the same series gives
  K = 190/3 and D = 490/9.
\<close>

theorem calculateTechnicalIndicators_skips_oscillator:
  "9 \<le> length scenarioC_closes \<and> length scenarioC_closes < 60
   \<and> calculateTechnicalIndicators (freshStock ''2330'') scenarioC_closes scenarioC_highs
        scenarioC_lows = Inr (freshStock ''2330'')
   \<and> calculateKDIndicator scenarioC_closes scenarioC_highs scenarioC_lows
        = Inr \<lparr>K = 190 / 3, D = 490 / 9\<rparr>
   \<and> KValue (freshStock ''2330'') \<noteq> 190 / 3 \<and> DValue (freshStock ''2330'') \<noteq> 490 / 9"
  by (simp add: calculateTechnicalIndicators_def freshStock_def calculateKDIndicator_def
      scenarioC_closes_def scenarioC_highs_def scenarioC_lows_def rsvAt_def index_def)

text \<open>
  Claim C7, amended. When any of the three series has fewer than 60 samples,
  \<^verbatim>\<open>calculateTechnicalIndicators\<close> leaves the stock as it is: the moving average and the
  oscillator pair keep their previous values, which are 0 for a freshly constructed stock.
  From 60 samples on (three series of equal length) it stores the mean of the last 60
  closes and the oscillator pair of the K/D recursion.
\<close>

theorem calculateTechnicalIndicators_needs_60_samples:
  "(length closes < 60 \<or> length highs < 60 \<or> length lows < 60 \<longrightarrow>
      calculateTechnicalIndicators stock closes highs lows = Inr stock)
   \<and> MA60 (freshStock code) = 0 \<and> KValue (freshStock code) = 0 \<and> DValue (freshStock code) = 0
   \<and> (60 \<le> length closes \<and> length highs = length closes \<and> length lows = length closes \<longrightarrow>
        calculateTechnicalIndicators stock closes highs lows =
          Inr (stock\<lparr>MA60 := sum_list (drop (length closes - 60) closes) / 60,
                     KValue := fst (kd_spec closes highs lows),
                     DValue := snd (kd_spec closes highs lows),
                     AvgVolume := 0\<rparr>))"
proof -
  have short: "calculateTechnicalIndicators stock closes highs lows = Inr stock"
    if "length closes < 60 \<or> length highs < 60 \<or> length lows < 60"
    using that by (simp add: calculateTechnicalIndicators_def)
  have long: "calculateTechnicalIndicators stock closes highs lows =
          Inr (stock\<lparr>MA60 := sum_list (drop (length closes - 60) closes) / 60,
                     KValue := fst (kd_spec closes highs lows),
                     DValue := snd (kd_spec closes highs lows),
                     AvgVolume := 0\<rparr>)"
    if h: "60 \<le> length closes \<and> length highs = length closes \<and> length lows = length closes"
  proof -
    have ma: "foldl (\<lambda>sum i. sum + closes ! i) 0 [length closes - 60..<length closes]
                = sum_list (drop (length closes - 60) closes)"
      using h moving_average_sum[of "length closes" closes] by simp
    have kd: "calculateKDIndicator closes highs lows =
           Inr \<lparr>K = fst (kd_spec closes highs lows), D = snd (kd_spec closes highs lows)\<rparr>"
      using h by (simp add: calculateKDIndicator_kd_spec)
    show ?thesis
      using h by (simp add: calculateTechnicalIndicators_def Let_def ma kd)
  qed
  have fresh: "MA60 (freshStock code) = 0 \<and> KValue (freshStock code) = 0
      \<and> DValue (freshStock code) = 0"
    by (simp add: freshStock_def)
  show ?thesis
    using short long fresh by blast
qed

text \<open>
  The nine days of scenario C are fewer than 60 and leave a fresh stock unchanged; sixty
  flat days at 7 are enough, and the stored moving average is their mean.
\<close>

theorem calculateTechnicalIndicators_needs_60_samples_witness:
  "length scenarioC_closes < 60
   \<and> calculateTechnicalIndicators (freshStock ''2330'') scenarioC_closes scenarioC_highs
        scenarioC_lows = Inr (freshStock ''2330'')
   \<and> 60 \<le> length sixty_flat_days
   \<and> calculateTechnicalIndicators (freshStock ''2330'') sixty_flat_days sixty_flat_days
        sixty_flat_days =
          Inr ((freshStock ''2330'')
                \<lparr>MA60 := 7,
                 KValue := fst (kd_spec sixty_flat_days sixty_flat_days sixty_flat_days),
                 DValue := snd (kd_spec sixty_flat_days sixty_flat_days sixty_flat_days),
                 AvgVolume := 0\<rparr>)"
proof -
  have short: "length scenarioC_closes < 60"
    by (simp add: scenarioC_closes_def)
  have long: "60 \<le> length sixty_flat_days \<and> length sixty_flat_days = length sixty_flat_days
      \<and> length sixty_flat_days = length sixty_flat_days"
    by (simp add: sixty_flat_days_def)
  have mean: "sum_list (drop (length sixty_flat_days - 60) sixty_flat_days) / 60 = 7"
    by (simp add: sixty_flat_days_def sum_list_replicate)
  from calculateTechnicalIndicators_needs_60_samples
         [of scenarioC_closes scenarioC_highs scenarioC_lows "freshStock ''2330''" "''2330''"]
       calculateTechnicalIndicators_needs_60_samples
         [of sixty_flat_days sixty_flat_days sixty_flat_days "freshStock ''2330''" "''2330''"]
       short long
  show ?thesis
    unfolding mean by blast
qed

section \<open>Properties of the ranking pipeline\<close>

lemma meetsScreeningCriteria_stage1:
  "meetsScreeningCriteria criteria stock = fst (checkStage1Fundamentals stock)"
  by (simp add: meetsScreeningCriteria_def split: prod.splits)

text \<open>Scoring changes the score only, and stage 1 does not read the score.\<close>

lemma checkStage1Fundamentals_calculateScore:
  "checkStage1Fundamentals (calculateScore stock) = checkStage1Fundamentals stock"
  by (simp add: checkStage1Fundamentals_def calculateScore_def Let_def)

lemma set_screenLoop:
  "set (screenLoop ff ft criteria codes acc) =
     set acc \<union>
     {calculateScore stock | stock code stock0.
        code \<in> set codes \<and> ff code = Inr stock0 \<and> ft stock0 = Inr stock
        \<and> meetsScreeningCriteria criteria stock}"
proof (induction codes arbitrary: acc)
  case Nil
  show ?case by simp
next
  case (Cons code codes)
  show ?case
    by (auto simp: Cons.IH split: sum.splits)
qed

lemma sorted_descending_sort_key:
  "sorted_wrt (\<lambda>a b. Score a \<ge> Score b) (sort_key (\<lambda>stock. - Score stock) xs)"
proof -
  have "sorted (map (\<lambda>stock. - Score stock) (sort_key (\<lambda>stock. - Score stock) xs))"
    by (rule sorted_sort_key)
  then show ?thesis by (simp add: sorted_map)
qed

text \<open>The loop output of the example run: the stock with an ROE of 0 is left out.\<close>

lemma example_screenLoop:
  "screenLoop exampleFetchFinancialData exampleFetchTechnicalData NewStockScreener_criteria
     [''2328'', ''0000'', ''2330''] []
   = [scenarioA\<lparr>Code := ''2328'', Score := 89\<rparr>, scenarioA\<lparr>Code := ''2330'', Score := 89\<rparr>]"
  by (simp add: exampleFetchFinancialData_def exampleFetchTechnicalData_def
      meetsScreeningCriteria_stage1 checkStage1Fundamentals_def calculateScore_def scenarioA_def)

text \<open>
  Under the second fetch layer every code of at most 400 characters qualifies, with a
  score of 87 plus a hundredth of its length.
\<close>

lemma ranked_screenLoop:
  assumes "\<forall>code \<in> set codes. length code \<le> 400"
  shows "screenLoop rankedFetchFinancialData exampleFetchTechnicalData criteria codes acc =
           acc @ map (\<lambda>code. scenarioA\<lparr>Code := code, EPS := 1 + real (length code) / 100,
                                        Score := 87 + real (length code) / 100\<rparr>) codes"
  using assms
proof (induction codes arbitrary: acc)
  case Nil
  show ?case by simp
next
  case (Cons code codes)
  have len: "real (length code) \<le> 400" using Cons.prems by simp
  have meets: "meetsScreeningCriteria criteria
      (scenarioA\<lparr>Code := code, EPS := 1 + real (length code) / 100\<rparr>)"
    by (simp add: meetsScreeningCriteria_stage1 checkStage1Fundamentals_def scenarioA_def)
  have score: "calculateScore (scenarioA\<lparr>Code := code, EPS := 1 + real (length code) / 100\<rparr>)
      = scenarioA\<lparr>Code := code, EPS := 1 + real (length code) / 100,
                  Score := 87 + real (length code) / 100\<rparr>"
    using len by (simp add: calculateScore_def scenarioA_def min_def)
  from Cons.prems have rest: "\<forall>code \<in> set codes. length code \<le> 400" by simp
  have ff: "rankedFetchFinancialData code
      = Inr (scenarioA\<lparr>Code := code, EPS := 1 + real (length code) / 100\<rparr>)"
    by (simp add: rankedFetchFinancialData_def)
  have ft: "exampleFetchTechnicalData (scenarioA\<lparr>Code := code, EPS := 1 + real (length code) / 100\<rparr>)
      = Inr (scenarioA\<lparr>Code := code, EPS := 1 + real (length code) / 100\<rparr>)"
    by (simp add: exampleFetchTechnicalData_def)
  show ?case
    by (simp add: ff ft meets score Cons.IH[OF rest])
qed

lemma fiftyCodes_sorted: "sorted_wrt (\<lambda>c c'. length c \<le> length c') fiftyCodes"
proof -
  have "sorted_wrt (\<lambda>m n. m \<le> n) [5..<53]"
    using sorted_upt[of 5 53] by (simp only: sorted_wrt_iff_nth_less sorted_iff_nth_mono_less) 
  then show ?thesis
    by (auto simp: fiftyCodes_def sorted_wrt_map simp del: upt_rec_numeral)
qed

lemma fiftyCodes_short: "\<forall>code \<in> set fiftyCodes. length code \<le> 400"
  by (auto simp: fiftyCodes_def simp del: upt_rec_numeral)

lemma fiftyCodes_four: "filter (\<lambda>c. length c = 4) fiftyCodes = [''2328'', ''2330'']"
  by (auto simp: fiftyCodes_def filter_empty_conv simp del: upt_rec_numeral)

text \<open>
  Claim C1. For every candidate that the pipeline processes (both fetches succeed), the
  scored candidate is in the returned list exactly when stage 1 passes. The filter
  \<^verbatim>\<open>meetsScreeningCriteria\<close> is the stage-1 boolean whatever the criteria and whatever
  stages 2 and 3 return: a stock that fails both stage 2 and stage 3 still meets it.
\<close>

theorem ScreenStocks_member_iff_stage1:
  assumes "ScreenStocks ff ft criteria stocks result" "code \<in> set stocks"
    "ff code = Inr stock0" "ft stock0 = Inr stock"
  shows "(calculateScore stock \<in> set result) = fst (checkStage1Fundamentals stock)
         \<and> meetsScreeningCriteria criteria stock = fst (checkStage1Fundamentals stock)
         \<and> meetsScreeningCriteria NewStockScreener_criteria advisoryFailures
         \<and> \<not> fst (checkStage2Quality NewStockScreener_criteria advisoryFailures)
         \<and> \<not> fst (checkStage3Technical advisoryFailures)"
proof -
  have advisory: "meetsScreeningCriteria NewStockScreener_criteria advisoryFailures
         \<and> \<not> fst (checkStage2Quality NewStockScreener_criteria advisoryFailures)
         \<and> \<not> fst (checkStage3Technical advisoryFailures)"
    by (simp add: meetsScreeningCriteria_stage1 checkStage1Fundamentals_def
        checkStage2Quality_def checkStage3Technical_def advisoryFailures_def fourOfSeven_def
        scenarioA_def NewStockScreener_criteria_def)
  from assms(1) have "mset result = mset (screenLoop ff ft criteria stocks [])"
    by (simp add: ScreenStocks_def sortSlice_def)
  then have s: "set result = set (screenLoop ff ft criteria stocks [])"
    by (rule mset_eq_setD)
  have "(calculateScore stock \<in> set result) = fst (checkStage1Fundamentals stock)"
  proof
    assume "calculateScore stock \<in> set result"
    then obtain stock' where "calculateScore stock' = calculateScore stock"
      "meetsScreeningCriteria criteria stock'"
      unfolding s set_screenLoop by auto
    then show "fst (checkStage1Fundamentals stock)"
      using checkStage1Fundamentals_calculateScore[of stock]
        checkStage1Fundamentals_calculateScore[of stock']
      by (simp add: meetsScreeningCriteria_stage1)
  next
    assume "fst (checkStage1Fundamentals stock)"
    then show "calculateScore stock \<in> set result"
      unfolding s set_screenLoop using assms(2-4)
      by (auto simp: meetsScreeningCriteria_stage1)
  qed
  then show ?thesis
    using advisory by (simp add: meetsScreeningCriteria_stage1)
qed

text \<open>
  In the example run the candidate 2328 passes stage 1 and is returned; the candidate
  0000, with an ROE of 0, fails stage 1 and is not.
\<close>

theorem ScreenStocks_member_iff_stage1_witness:
  "ScreenStocks exampleFetchFinancialData exampleFetchTechnicalData NewStockScreener_criteria
     [''2328'', ''0000'', ''2330'']
     [scenarioA\<lparr>Code := ''2328'', Score := 89\<rparr>, scenarioA\<lparr>Code := ''2330'', Score := 89\<rparr>]
   \<and> ''2328'' \<in> set [''2328'', ''0000'', ''2330'']
   \<and> exampleFetchFinancialData ''2328'' = Inr (scenarioA\<lparr>Code := ''2328''\<rparr>)
   \<and> exampleFetchTechnicalData (scenarioA\<lparr>Code := ''2328''\<rparr>) = Inr (scenarioA\<lparr>Code := ''2328''\<rparr>)
   \<and> calculateScore (scenarioA\<lparr>Code := ''2328''\<rparr>)
       \<in> set [scenarioA\<lparr>Code := ''2328'', Score := 89\<rparr>, scenarioA\<lparr>Code := ''2330'', Score := 89\<rparr>]
   \<and> fst (checkStage1Fundamentals (scenarioA\<lparr>Code := ''2328''\<rparr>))
   \<and> calculateScore (scenarioA\<lparr>Code := ''0000'', ROE := 0\<rparr>)
       \<notin> set [scenarioA\<lparr>Code := ''2328'', Score := 89\<rparr>, scenarioA\<lparr>Code := ''2330'', Score := 89\<rparr>]
   \<and> \<not> fst (checkStage1Fundamentals (scenarioA\<lparr>Code := ''0000'', ROE := 0\<rparr>))"
proof -
  have run: "ScreenStocks exampleFetchFinancialData exampleFetchTechnicalData
     NewStockScreener_criteria [''2328'', ''0000'', ''2330'']
     [scenarioA\<lparr>Code := ''2328'', Score := 89\<rparr>, scenarioA\<lparr>Code := ''2330'', Score := 89\<rparr>]"
    unfolding ScreenStocks_def example_screenLoop by (simp add: sortSlice_def)
  have m1: "''2328'' \<in> set [''2328'', ''0000'', ''2330'']"
    and m2: "''0000'' \<in> set [''2328'', ''0000'', ''2330'']"
    by simp_all
  have f1: "exampleFetchFinancialData ''2328'' = Inr (scenarioA\<lparr>Code := ''2328''\<rparr>)"
    and f2: "exampleFetchFinancialData ''0000'' = Inr (scenarioA\<lparr>Code := ''0000'', ROE := 0\<rparr>)"
    by (simp_all add: exampleFetchFinancialData_def)
  have t1: "exampleFetchTechnicalData (scenarioA\<lparr>Code := ''2328''\<rparr>)
              = Inr (scenarioA\<lparr>Code := ''2328''\<rparr>)"
    and t2: "exampleFetchTechnicalData (scenarioA\<lparr>Code := ''0000'', ROE := 0\<rparr>)
              = Inr (scenarioA\<lparr>Code := ''0000'', ROE := 0\<rparr>)"
    by (simp_all add: exampleFetchTechnicalData_def)
  have p1: "fst (checkStage1Fundamentals (scenarioA\<lparr>Code := ''2328''\<rparr>))"
    and p2: "\<not> fst (checkStage1Fundamentals (scenarioA\<lparr>Code := ''0000'', ROE := 0\<rparr>))"
    by (simp_all add: checkStage1Fundamentals_def scenarioA_def)
  from ScreenStocks_member_iff_stage1[OF run m1 f1 t1]
    ScreenStocks_member_iff_stage1[OF run m2 f2 t2] run m1 f1 t1 p1 p2
  show ?thesis by blast
qed

text \<open>
  The tie order that claim C9 states is not what \<^verbatim>\<open>sort.Slice\<close> promises. With the
  second fetch layer the fifty codes all qualify, in ascending order of score, the first
  two with the same score. The reverse of that list is sorted by descending score and is
  therefore a possible outcome; it ends with the two tied stocks in swapped order, so it is
  not the stable order.
\<close>

theorem ScreenStocks_ties_may_swap:
  "ScreenStocks rankedFetchFinancialData exampleFetchTechnicalData NewStockScreener_criteria
     fiftyCodes
     (rev (screenLoop rankedFetchFinancialData exampleFetchTechnicalData
             NewStockScreener_criteria fiftyCodes []))
   \<and> take 2 (screenLoop rankedFetchFinancialData exampleFetchTechnicalData
                NewStockScreener_criteria fiftyCodes [])
       = [scenarioA\<lparr>Code := ''2328'', EPS := 26 / 25, Score := 2176 / 25\<rparr>,
          scenarioA\<lparr>Code := ''2330'', EPS := 26 / 25, Score := 2176 / 25\<rparr>]
   \<and> drop 48 (rev (screenLoop rankedFetchFinancialData exampleFetchTechnicalData
                NewStockScreener_criteria fiftyCodes []))
       = [scenarioA\<lparr>Code := ''2330'', EPS := 26 / 25, Score := 2176 / 25\<rparr>,
          scenarioA\<lparr>Code := ''2328'', EPS := 26 / 25, Score := 2176 / 25\<rparr>]
   \<and> rev (screenLoop rankedFetchFinancialData exampleFetchTechnicalData
             NewStockScreener_criteria fiftyCodes [])
      \<noteq> stable_descending_spec
           (screenLoop rankedFetchFinancialData exampleFetchTechnicalData
              NewStockScreener_criteria fiftyCodes [])"
proof -
  define q where "q = screenLoop rankedFetchFinancialData exampleFetchTechnicalData
             NewStockScreener_criteria fiftyCodes []"
  define scored where "scored = (\<lambda>code. scenarioA\<lparr>Code := code,
      EPS := 1 + real (length code) / 100, Score := 87 + real (length code) / 100\<rparr>)"
  have q: "q = map scored fiftyCodes"
    unfolding q_def scored_def
    using ranked_screenLoop[OF fiftyCodes_short, of NewStockScreener_criteria "[]"]
    by simp
  have score: "Score (scored c) = 87 + real (length c) / 100" for c
    by (simp add: scored_def)
  have asc: "sorted_wrt (\<lambda>a b. Score a \<le> Score b) q"
    using fiftyCodes_sorted by (simp add: q sorted_wrt_map score)
  have desc: "sorted_wrt (\<lambda>a b. \<not> Score b > Score a) (rev q)"
    using asc by (simp add: sorted_wrt_rev not_less)
  have possible: "sortSlice (\<lambda>a b. Score a > Score b) q (rev q)"
    using desc by (simp add: sortSlice_def)
  define v where "v = Score (scored ''2328'')"
  have tie: "(Score (scored c) = v) = (length c = 4)" for c
    unfolding v_def by (simp add: score)
  have ties: "filter (\<lambda>s. Score s = v) q = [scored ''2328'', scored ''2330'']"
    by (simp only: q filter_map o_def tie fiftyCodes_four list.map)
  have stable: "filter (\<lambda>s. Score s = v) (stable_descending_spec q)
      = [scored ''2328'', scored ''2330'']"
    using sort_key_stable[of "\<lambda>s. - Score s" "- v" q]
    by (simp add: stable_descending_spec_def ties)
  have swapped: "filter (\<lambda>s. Score s = v) (rev q) = [scored ''2330'', scored ''2328'']"
    by (simp only: rev_filter[symmetric] ties rev.simps append.simps)
  have "scored ''2328'' \<noteq> scored ''2330''"
    by (simp add: scored_def scenarioA_def)
  with stable swapped have differ: "rev q \<noteq> stable_descending_spec q"
    by auto
  have first: "take 2 q = [scored ''2328'', scored ''2330'']"
    by (simp add: q fiftyCodes_def del: upt_rec_numeral)
  have "length q = 50"
    by (simp add: q fiftyCodes_def del: upt_rec_numeral)
  then have "drop 48 (rev q) = rev (take 2 q)"
    by (simp add: rev_take)
  then have last: "drop 48 (rev q) = [scored ''2330'', scored ''2328'']"
    by (simp add: first)
  have recs: "scored ''2328'' = scenarioA\<lparr>Code := ''2328'', EPS := 26 / 25, Score := 2176 / 25\<rparr>"
    "scored ''2330'' = scenarioA\<lparr>Code := ''2330'', EPS := 26 / 25, Score := 2176 / 25\<rparr>"
    by (simp_all add: scored_def)
  from possible differ first last show ?thesis
    unfolding recs by (simp add: ScreenStocks_def q_def)
qed

text \<open>
  Claim C9, amended. For every input list \<^verbatim>\<open>ScreenStocks\<close> returns a list; every list it
  may return holds exactly the qualified stocks, sorted by score in descending order. The
  order among stocks of equal score is not determined: the stable order is one possible
  outcome, not the only one.
\<close>

theorem ScreenStocks_sorted_descending:
  "ScreenStocks ff ft criteria stocks
     (stable_descending_spec (screenLoop ff ft criteria stocks []))
   \<and> (ScreenStocks ff ft criteria stocks result \<longrightarrow>
        sorted_wrt (\<lambda>a b. Score a \<ge> Score b) result
        \<and> mset result = mset (screenLoop ff ft criteria stocks []))"
  using sorted_descending_sort_key
  by (simp add: ScreenStocks_def sortSlice_def stable_descending_spec_def not_less)

text \<open>In the example run, the list in input order is a possible outcome and is sorted.\<close>

theorem ScreenStocks_sorted_descending_witness:
  "ScreenStocks exampleFetchFinancialData exampleFetchTechnicalData NewStockScreener_criteria
     [''2328'', ''0000'', ''2330'']
     [scenarioA\<lparr>Code := ''2328'', Score := 89\<rparr>, scenarioA\<lparr>Code := ''2330'', Score := 89\<rparr>]
   \<and> sorted_wrt (\<lambda>a b. Score a \<ge> Score b)
        [scenarioA\<lparr>Code := ''2328'', Score := 89\<rparr>, scenarioA\<lparr>Code := ''2330'', Score := 89\<rparr>]"
proof -
  have run: "ScreenStocks exampleFetchFinancialData exampleFetchTechnicalData
     NewStockScreener_criteria [''2328'', ''0000'', ''2330'']
     [scenarioA\<lparr>Code := ''2328'', Score := 89\<rparr>, scenarioA\<lparr>Code := ''2330'', Score := 89\<rparr>]"
    unfolding ScreenStocks_def example_screenLoop by (simp add: sortSlice_def)
  with ScreenStocks_sorted_descending
         [of exampleFetchFinancialData exampleFetchTechnicalData NewStockScreener_criteria
             "[''2328'', ''0000'', ''2330'']"
             "[scenarioA\<lparr>Code := ''2328'', Score := 89\<rparr>, scenarioA\<lparr>Code := ''2330'', Score := 89\<rparr>]"]
  show ?thesis by blast
qed

end
